theory Spec2Isabelle
  imports Complex_Main
begin

section \<open>Tides of Fortune: the simulation core of App.tsx\<close>

text \<open>
  The model follows \<^verbatim>\<open>src/src/App.tsx\<close>. JavaScript numbers that hold counts and
  game minutes are integers (\<open>int\<close>); the numbers that hold positions, energy, hunger and
  milliseconds are modelled as exact rationals (\<open>rat\<close>), so rounding of binary floating
  point is outside the model. Drawing, the HUD setters and \<^verbatim>\<open>saveGame\<close> do not change
  the simulation state and are left out.
\<close>

subsection \<open>Constants and types\<close>

definition MAP_WIDTH :: nat where "MAP_WIDTH = 50"
definition MAP_HEIGHT :: nat where "MAP_HEIGHT = 50"
definition REAL_SEC_PER_GAME_MIN :: rat where "REAL_SEC_PER_GAME_MIN = 1"
definition GAME_MINS_PER_DAY :: int where "GAME_MINS_PER_DAY = 24 * 60"

datatype TileType = DeepWater | ShallowWater | Sand | Grass

datatype ItemType =
  driftwood | crate | metal | axe | wood | coconut | tree | tree_stump | wall_wood

datatype Direction = up | down | left | right

record Tile =
  type :: TileType
  item :: "ItemType option"
  stumpChoppedAt :: "int option"
  placedStructure :: "ItemType option"
  variant :: "rat option"

record Player =
  x :: rat
  y :: rat
  targetX :: rat
  targetY :: rat
  isMoving :: bool
  facing :: Direction
  energy :: rat
  hunger :: rat
  isResting :: bool

type_synonym Inventory = "ItemType \<rightharpoonup> int"

record GameState =
  day :: int
  timeOfDay :: int
  totalMinutes :: int
  inventory :: Inventory

record Recipe =
  id :: string
  name :: string
  result :: ItemType
  amount :: int
  ingredients :: "(ItemType \<times> int) list"

definition craft_axe :: Recipe where
  "craft_axe = \<lparr>id = ''craft_axe'', name = ''Axe'', result = axe, amount = 1,
     ingredients = [(metal, 1), (driftwood, 1)]\<rparr>"

definition craft_crate :: Recipe where
  "craft_crate = \<lparr>id = ''craft_crate'', name = ''Crate'', result = crate, amount = 1,
     ingredients = [(driftwood, 6)]\<rparr>"

definition craft_wall_wood :: Recipe where
  "craft_wall_wood = \<lparr>id = ''craft_wall_wood'', name = ''Wooden Wall'', result = wall_wood,
     amount = 1, ingredients = [(wood, 2)]\<rparr>"

definition RECIPES :: "Recipe list" where
  "RECIPES = [craft_axe, craft_crate, craft_wall_wood]"

text \<open>\<^verbatim>\<open>ITEM_PROPS\<close>: only the coconut is edible, only the wooden wall is placeable.\<close>

fun edible :: "ItemType \<Rightarrow> bool" where
  "edible coconut = True"
| "edible _ = False"

fun hungerRestore :: "ItemType \<Rightarrow> rat option" where
  "hungerRestore coconut = Some 20"
| "hungerRestore _ = None"

fun placeable :: "ItemType \<Rightarrow> bool" where
  "placeable wall_wood = True"
| "placeable _ = False"

text \<open>The state the component keeps in its refs and in \<^verbatim>\<open>activeItem\<close>.\<close>

record Sim =
  mapRef :: "Tile list list"
  playerRef :: Player
  gameStateRef :: GameState
  timeAccumulatorRef :: rat
  regenTimerRef :: rat
  activeItem :: "ItemType option"

datatype error = TypeError

subsection \<open>Inventory and crafting\<close>

text \<open>\<^verbatim>\<open>inventory[item] || 0\<close>: a missing key reads as 0.\<close>

definition count :: "Inventory \<Rightarrow> ItemType \<Rightarrow> int" where
  "count bag k = (case bag k of None \<Rightarrow> 0 | Some n \<Rightarrow> n)"

text \<open>The first loop of \<^verbatim>\<open>handleCraft\<close>, with its \<^verbatim>\<open>break\<close>.\<close>

fun canCraft :: "Inventory \<Rightarrow> (ItemType \<times> int) list \<Rightarrow> bool" where
  "canCraft bag [] = True"
| "canCraft bag ((k, n) # rest) = (if count bag k < n then False else canCraft bag rest)"

text \<open>The second loop of \<^verbatim>\<open>handleCraft\<close>: every entry is written back, also when it is 0.\<close>

fun deduct :: "Inventory \<Rightarrow> (ItemType \<times> int) list \<Rightarrow> Inventory" where
  "deduct bag [] = bag"
| "deduct bag ((k, n) # rest) = deduct (bag(k \<mapsto> count bag k - n)) rest"

definition handleCraft :: "Recipe \<Rightarrow> Inventory \<Rightarrow> Inventory" where
  "handleCraft recipe bag =
     (if canCraft bag (ingredients recipe)
      then (let bag' = deduct bag (ingredients recipe)
            in bag'(result recipe \<mapsto> count bag' (result recipe) + amount recipe))
      else bag)"

text \<open>How much of \<open>k\<close> a list of ingredients asks for (0 when \<open>k\<close> is not an ingredient).\<close>

definition need :: "(ItemType \<times> int) list \<Rightarrow> ItemType \<Rightarrow> int" where
  "need ings k = (case map_of ings k of None \<Rightarrow> 0 | Some n \<Rightarrow> n)"

text \<open>
  \<^verbatim>\<open>handleUseItem\<close>. Within one call the closure's \<^verbatim>\<open>activeItem\<close> is fixed and the last
  \<^verbatim>\<open>setActiveItem\<close> wins.
\<close>

definition handleUseItem :: "ItemType \<Rightarrow> Sim \<Rightarrow> Sim" where
  "handleUseItem it s =
     (let s1 = (if activeItem s \<noteq> None \<and> activeItem s \<noteq> Some it
                then s\<lparr>activeItem := None\<rparr> else s)
      in if activeItem s = Some it then s1\<lparr>activeItem := None\<rparr>
         else
           let gameState = gameStateRef s1; bag = inventory gameState; player = playerRef s1
           in if count bag it > 0
              then (if edible it
                    then
                      let player' = player\<lparr>hunger := min 100 (hunger player +
                              (case hungerRestore it of None \<Rightarrow> 10 | Some h \<Rightarrow> h))\<rparr>;
                          bag1 = bag(it \<mapsto> count bag it - 1);
                          bag2 = (if bag1 it = Some 0 then bag1(it := None) else bag1)
                      in s1\<lparr>playerRef := player', gameStateRef := gameState\<lparr>inventory := bag2\<rparr>\<rparr>
                    else s1\<lparr>activeItem := Some it\<rparr>)
              else s1)"

subsection \<open>Regeneration\<close>

text \<open>The body of \<^verbatim>\<open>if (regenTimerRef.current >= 100)\<close> in \<^verbatim>\<open>update\<close>.\<close>

definition regen :: "Player \<Rightarrow> Player" where
  "regen player =
     (if isResting player
      then (let p1 = player\<lparr>energy := min 100 (energy player + 1)\<rparr>
            in if energy p1 < 100 then p1\<lparr>hunger := max 0 (hunger p1 - 5 / 100)\<rparr> else p1)
      else if \<not> isMoving player \<and> hunger player > 50
           then player\<lparr>energy := min 100 (energy player + 5 / 100)\<rparr>
           else player)"

subsection \<open>The tile grid\<close>

text \<open>
  The grid is \<^verbatim>\<open>map[y][x]\<close>, a list of rows. \<^verbatim>\<open>generateMap\<close> builds \<open>MAP_HEIGHT\<close> rows of
  \<open>MAP_WIDTH\<close> tiles and no operation changes that shape.
\<close>

definition wf_map :: "Tile list list \<Rightarrow> bool" where
  "wf_map m = (length m = MAP_HEIGHT \<and> (\<forall>r \<in> set m. length r = MAP_WIDTH))"

text \<open>
  Reading \<^verbatim>\<open>map[row][col]\<close> with numbers as indices: a fractional or out-of-range index
  finds no tile (JavaScript yields \<^verbatim>\<open>undefined\<close>, and the property read that follows
  throws a TypeError).
\<close>

definition tileAt :: "Tile list list \<Rightarrow> rat \<Rightarrow> rat \<Rightarrow> Tile option" where
  "tileAt m row col =
     (if of_int \<lfloor>row\<rfloor> = row \<and> of_int \<lfloor>col\<rfloor> = col \<and> 0 \<le> row \<and> 0 \<le> col
         \<and> nat \<lfloor>row\<rfloor> < length m \<and> nat \<lfloor>col\<rfloor> < length (m ! nat \<lfloor>row\<rfloor>)
      then Some (m ! nat \<lfloor>row\<rfloor> ! nat \<lfloor>col\<rfloor>) else None)"

text \<open>Writing through the reference \<^verbatim>\<open>tile = map[row][col]\<close>.\<close>

definition setTile :: "Tile list list \<Rightarrow> nat \<Rightarrow> nat \<Rightarrow> Tile \<Rightarrow> Tile list list" where
  "setTile m row col t = m[row := (m ! row)[col := t]]"

text \<open>
  The double loop \<^verbatim>\<open>for y < MAP_HEIGHT, for x < MAP_WIDTH\<close> shared by \<^verbatim>\<open>triggerTide\<close> and
  \<^verbatim>\<open>checkRegrowth\<close>; \<open>f col row\<close> is the loop body at \<^verbatim>\<open>(x, y)\<close>.
\<close>

definition forEachTile ::
  "(nat \<Rightarrow> nat \<Rightarrow> Tile \<Rightarrow> Tile) \<Rightarrow> Tile list list \<Rightarrow> Tile list list" where
  "forEachTile f m =
     fold (\<lambda>row m1. fold (\<lambda>col m2. setTile m2 row col (f col row (m2 ! row ! col)))
                          [0..<MAP_WIDTH] m1)
          [0..<MAP_HEIGHT] m"

text \<open>\<^verbatim>\<open>Math.round\<close>: to the nearest integer, halves upwards.\<close>

definition js_round :: "rat \<Rightarrow> int" where
  "js_round r = \<lfloor>r + 1 / 2\<rfloor>"

subsection \<open>Tide and regrowth\<close>

text \<open>
  \<^verbatim>\<open>Math.random()\<close> is drawn once for every tile that passes the guards; \<open>roll col row\<close>
  stands for the sample drawn at \<^verbatim>\<open>(x, y)\<close>.
\<close>

definition tideTile :: "(nat \<Rightarrow> nat \<Rightarrow> rat) \<Rightarrow> Player \<Rightarrow> nat \<Rightarrow> nat \<Rightarrow> Tile \<Rightarrow> Tile" where
  "tideTile roll player col row tile =
     (if type tile = Sand
      then (let isPlayerHere = (js_round (x player) = int col \<and> js_round (y player) = int row)
            in if item tile = None \<and> \<not> isPlayerHere \<and> placedStructure tile = None
               then (let r = roll col row
                     in if r < 15 / 100 then tile\<lparr>item := Some driftwood\<rparr>
                        else if r > 88 / 100 \<and> r < 98 / 100 then tile\<lparr>item := Some metal\<rparr>
                        else if r > 98 / 100 then tile\<lparr>item := Some crate\<rparr>
                        else tile)
               else tile)
      else tile)"

definition triggerTide ::
  "(nat \<Rightarrow> nat \<Rightarrow> rat) \<Rightarrow> Player \<Rightarrow> Tile list list \<Rightarrow> Tile list list" where
  "triggerTide roll player m = forEachTile (tideTile roll player) m"

text \<open>\<^verbatim>\<open>tile.stumpChoppedAt\<close> as a condition: present and not 0.\<close>

definition truthy :: "int option \<Rightarrow> bool" where
  "truthy v = (case v of None \<Rightarrow> False | Some n \<Rightarrow> n \<noteq> 0)"

definition REGROWTH_TIME :: int where "REGROWTH_TIME = 24 * 60"

definition regrowTile :: "int \<Rightarrow> Tile \<Rightarrow> Tile" where
  "regrowTile currentTotalMinutes tile =
     (if item tile = Some tree_stump \<and> truthy (stumpChoppedAt tile)
      then (if currentTotalMinutes - the (stumpChoppedAt tile) \<ge> REGROWTH_TIME
            then tile\<lparr>item := Some tree, stumpChoppedAt := None\<rparr>
            else tile)
      else tile)"

definition checkRegrowth :: "int \<Rightarrow> Tile list list \<Rightarrow> Tile list list" where
  "checkRegrowth currentTotalMinutes m = forEachTile (\<lambda>col row. regrowTile currentTotalMinutes) m"

subsection \<open>Interaction and placement\<close>

text \<open>The tile in front of the player: rounded position plus the unit offset of \<open>facing\<close>.\<close>

definition facedTile :: "Player \<Rightarrow> int \<times> int" where
  "facedTile player =
     (let targetX = js_round (x player); targetY = js_round (y player)
      in case facing player of
           up \<Rightarrow> (targetX, targetY - 1)
         | down \<Rightarrow> (targetX, targetY + 1)
         | left \<Rightarrow> (targetX - 1, targetY)
         | right \<Rightarrow> (targetX + 1, targetY))"

definition inBounds :: "rat \<Rightarrow> rat \<Rightarrow> bool" where
  "inBounds cx cy = (cx \<ge> 0 \<and> cx < of_nat MAP_WIDTH \<and> cy \<ge> 0 \<and> cy < of_nat MAP_HEIGHT)"

text \<open>
  \<^verbatim>\<open>handleInteraction\<close>. A result \<open>Inl (TypeError, s)\<close> is the exception JavaScript throws
  on reading a property of \<^verbatim>\<open>undefined\<close>, with the state as mutated up to then.
\<close>

definition handleInteraction :: "Sim \<Rightarrow> error \<times> Sim + Sim" where
  "handleInteraction s =
     (let player = playerRef s; m = mapRef s; gameState = gameStateRef s
      in if energy player \<le> 0 \<or> isResting player then Inr s
         else
           let (targetX, targetY) = facedTile player
           in if inBounds (of_int targetX) (of_int targetY)
              then (case tileAt m (of_int targetY) (of_int targetX) of
                      None \<Rightarrow> Inl (TypeError, s)
                    | Some tile \<Rightarrow>
                       (case item tile of
                          None \<Rightarrow> Inr s
                        | Some it \<Rightarrow>
                           if it = tree
                           then (if activeItem s = Some axe
                                 then
                                   let tile' = tile\<lparr>item := Some tree_stump,
                                          stumpChoppedAt := Some (totalMinutes gameState)\<rparr>;
                                       bag = inventory gameState;
                                       bag1 = bag(wood \<mapsto> count bag wood + 3);
                                       bag2 = bag1(coconut \<mapsto> count bag1 coconut + 1)
                                   in Inr (s\<lparr>mapRef := setTile m (nat targetY) (nat targetX) tile',
                                        gameStateRef := gameState\<lparr>inventory := bag2\<rparr>,
                                        playerRef := player\<lparr>energy := max 0 (energy player - 10)\<rparr>\<rparr>)
                                 else Inr s)
                           else if it \<noteq> tree_stump
                           then
                             let tile' = tile\<lparr>item := None\<rparr>;
                                 bag = inventory gameState;
                                 bag1 = bag(it \<mapsto> count bag it + 1)
                             in Inr (s\<lparr>mapRef := setTile m (nat targetY) (nat targetX) tile',
                                  gameStateRef := gameState\<lparr>inventory := bag1\<rparr>,
                                  playerRef := player\<lparr>energy := max 0 (energy player - 5)\<rparr>\<rparr>)
                           else Inr s))
              else Inr s)"

definition handlePlaceItem :: "Sim \<Rightarrow> error \<times> Sim + Sim" where
  "handlePlaceItem s =
     (case activeItem s of
        None \<Rightarrow> Inr s
      | Some act \<Rightarrow>
         if \<not> placeable act then Inr s
         else
           let player = playerRef s; m = mapRef s; gameState = gameStateRef s;
               (targetX, targetY) = facedTile player
           in if inBounds (of_int targetX) (of_int targetY)
              then (case tileAt m (of_int targetY) (of_int targetX) of
                      None \<Rightarrow> Inl (TypeError, s)
                    | Some tile \<Rightarrow>
                       if type tile \<noteq> DeepWater \<and> item tile = None \<and> placedStructure tile = None
                       then
                         let tile' = tile\<lparr>placedStructure := Some act\<rparr>;
                             bag = inventory gameState;
                             bag1 = bag(act \<mapsto> count bag act - 1);
                             emptied = (bag1 act = Some 0);
                             bag2 = (if emptied then bag1(act := None) else bag1)
                         in Inr (s\<lparr>mapRef := setTile m (nat targetY) (nat targetX) tile',
                              gameStateRef := gameState\<lparr>inventory := bag2\<rparr>,
                              activeItem := (if emptied then None else activeItem s)\<rparr>)
                       else Inr s)
              else Inr s)"

subsection \<open>The tick: \<^verbatim>\<open>update(deltaTime)\<close>\<close>

text \<open>\<^verbatim>\<open>keysRef.current[k]\<close> as a condition: \<open>keys k\<close> holds when the key is down.\<close>

type_synonym Keys = "string \<Rightarrow> bool"

text \<open>Lines 453 to 454: holding R rests.\<close>

definition restPhase :: "Keys \<Rightarrow> Sim \<Rightarrow> Sim" where
  "restPhase keys s =
     s\<lparr>playerRef := (playerRef s)\<lparr>isResting := (keys ''r'' \<or> keys ''R'')\<rparr>\<rparr>"

text \<open>Lines 456 to 466: the regeneration timer.\<close>

definition regenPhase :: "rat \<Rightarrow> Sim \<Rightarrow> Sim" where
  "regenPhase deltaTime s =
     (let t = regenTimerRef s + deltaTime
      in if t \<ge> 100 then s\<lparr>regenTimerRef := 0, playerRef := regen (playerRef s)\<rparr>
         else s\<lparr>regenTimerRef := t\<rparr>)"

text \<open>The remainder operator \<^verbatim>\<open>%\<close> on numbers: the quotient is truncated towards 0.\<close>

definition js_rem :: "rat \<Rightarrow> rat \<Rightarrow> rat" where
  "js_rem a b = a - b * of_int (if a / b \<ge> 0 then \<lfloor>a / b\<rfloor> else \<lceil>a / b\<rceil>)"

text \<open>
  Lines 475 to 477: the clock advances by whole minutes; \<^verbatim>\<open>totalMinutes\<close> is first
  initialised from \<^verbatim>\<open>day\<close> and \<^verbatim>\<open>timeOfDay\<close> when it is 0.
\<close>

definition advanceClock :: "int \<Rightarrow> GameState \<Rightarrow> GameState" where
  "advanceClock minutesToAdd gameState =
     (let gs1 = gameState\<lparr>timeOfDay := timeOfDay gameState + minutesToAdd\<rparr>;
          gs2 = (if totalMinutes gs1 = 0
                 then gs1\<lparr>totalMinutes := day gs1 * GAME_MINS_PER_DAY + timeOfDay gs1\<rparr>
                 else gs1)
      in gs2\<lparr>totalMinutes := totalMinutes gs2 + minutesToAdd\<rparr>)"

text \<open>
  Lines 468 to 488: game time. \<open>roll\<close> gives the samples a tide sweep of this tick draws.
\<close>

definition timePhase :: "rat \<Rightarrow> (nat \<Rightarrow> nat \<Rightarrow> rat) \<Rightarrow> Sim \<Rightarrow> Sim" where
  "timePhase deltaTime roll s =
     (let player = playerRef s;
          timeDelta = (if isResting player then deltaTime * 20 else deltaTime);
          acc = timeAccumulatorRef s + timeDelta;
          msPerGameMin = REAL_SEC_PER_GAME_MIN * 1000
      in if acc \<ge> msPerGameMin
         then
           let minutesToAdd = \<lfloor>acc / msPerGameMin\<rfloor>;
               gameState = advanceClock minutesToAdd (gameStateRef s);
               s1 = s\<lparr>gameStateRef := gameState,
                      timeAccumulatorRef := js_rem acc msPerGameMin\<rparr>;
               s2 = (if timeOfDay gameState mod 20 = 0
                     then s1\<lparr>playerRef := player\<lparr>hunger := max 0 (hunger player - 1)\<rparr>,
                             mapRef := checkRegrowth (totalMinutes gameState) (mapRef s1)\<rparr>
                     else s1)
           in if timeOfDay gameState \<ge> GAME_MINS_PER_DAY
              then s2\<lparr>gameStateRef :=
                        gameState\<lparr>timeOfDay := timeOfDay gameState - GAME_MINS_PER_DAY,
                                   day := day gameState + 1\<rparr>,
                      mapRef := triggerTide roll (playerRef s2) (mapRef s2)\<rparr>
              else s2
         else s\<lparr>timeAccumulatorRef := acc\<rparr>)"

text \<open>Lines 517 to 520: the first direction key held, in the order up, down, left, right.\<close>

definition intentDir :: "Keys \<Rightarrow> Direction option" where
  "intentDir keys =
     (if keys ''w'' \<or> keys ''ArrowUp'' then Some up
      else if keys ''s'' \<or> keys ''ArrowDown'' then Some down
      else if keys ''a'' \<or> keys ''ArrowLeft'' then Some left
      else if keys ''d'' \<or> keys ''ArrowRight'' then Some right
      else None)"

definition nextPos :: "Direction \<Rightarrow> Player \<Rightarrow> rat \<times> rat" where
  "nextPos d player =
     (case d of
        up \<Rightarrow> (x player, y player - 1)
      | down \<Rightarrow> (x player, y player + 1)
      | left \<Rightarrow> (x player - 1, y player)
      | right \<Rightarrow> (x player + 1, y player))"

definition isSolid :: "Tile \<Rightarrow> bool" where
  "isSolid t = (type t = DeepWater \<or> item t \<noteq> None \<or> placedStructure t \<noteq> None)"

text \<open>Lines 490 to 533: movement. The camera, computed afterwards, is not part of the state.\<close>

definition movePhase :: "Keys \<Rightarrow> Sim \<Rightarrow> error \<times> Sim + Sim" where
  "movePhase keys s =
     (let player = playerRef s; m = mapRef s;
          currentTileX = js_round (x player);
          currentTileY = js_round (y player);
          safeX = max 0 (min currentTileX (int MAP_WIDTH - 1));
          safeY = max 0 (min currentTileY (int MAP_HEIGHT - 1))
      in case tileAt m (of_int safeY) (of_int safeX) of
           None \<Rightarrow> Inl (TypeError, s)
         | Some currentTile \<Rightarrow>
            let BASE_SPEED = (if energy player \<le> 0 then (3 / 100) * (1 / 2) else 3 / 100);
                currentSpeed = (if type currentTile = ShallowWater then BASE_SPEED * (1 / 2)
                                else BASE_SPEED)
            in if isMoving player
               then
                 let dx = targetX player - x player;
                     dy = targetY player - y player;
                     p1 = player\<lparr>x := (if \<bar>dx\<bar> > currentSpeed
                                       then x player + sgn dx * currentSpeed
                                       else targetX player)\<rparr>;
                     p2 = p1\<lparr>y := (if \<bar>dy\<bar> > currentSpeed
                                   then y p1 + sgn dy * currentSpeed
                                   else targetY p1)\<rparr>;
                     p3 = (if x p2 = targetX p2 \<and> y p2 = targetY p2
                           then p2\<lparr>isMoving := False, energy := max 0 (energy p2 - 1 / 10)\<rparr>
                           else p2)
                 in Inr (s\<lparr>playerRef := p3\<rparr>)
               else if \<not> isResting player
               then (case intentDir keys of
                       None \<Rightarrow> Inr s
                     | Some d \<Rightarrow>
                        let (nextX, nextY) = nextPos d player;
                            p1 = player\<lparr>facing := d\<rparr>
                        in if inBounds nextX nextY
                           then (case tileAt m nextY nextX of
                                   None \<Rightarrow> Inl (TypeError, s\<lparr>playerRef := p1\<rparr>)
                                 | Some targetTile \<Rightarrow>
                                    if \<not> isSolid targetTile
                                    then Inr (s\<lparr>playerRef := p1\<lparr>targetX := nextX,
                                                    targetY := nextY, isMoving := True\<rparr>\<rparr>)
                                    else Inr (s\<lparr>playerRef := p1\<rparr>))
                           else Inr (s\<lparr>playerRef := p1\<rparr>))
               else Inr s)"

text \<open>
  \<^verbatim>\<open>update\<close>: nothing happens while the crafting menu is open; otherwise the phases
  run in the order of the source.
\<close>

definition update ::
  "bool \<Rightarrow> rat \<Rightarrow> Keys \<Rightarrow> (nat \<Rightarrow> nat \<Rightarrow> rat) \<Rightarrow> Sim \<Rightarrow> error \<times> Sim + Sim" where
  "update showCrafting deltaTime keys roll s =
     (if showCrafting then Inr s
      else movePhase keys (timePhase deltaTime roll (regenPhase deltaTime (restPhase keys s))))"

subsection \<open>A new game and the states a run can reach\<close>

text \<open>
  \<^verbatim>\<open>generateMap\<close>: the tile at \<^verbatim>\<open>(x, y)\<close> by its distance from the centre. The source
  compares \<^verbatim>\<open>Math.sqrt(dx * dx + dy * dy)\<close> with each radius; the model compares the
  squares. \<open>treeRoll\<close> and \<open>variantRoll\<close> are the samples of \<^verbatim>\<open>Math.random()\<close> drawn at
  that tile.
\<close>

definition generateTile :: "(nat \<Rightarrow> nat \<Rightarrow> rat) \<Rightarrow> (nat \<Rightarrow> nat \<Rightarrow> rat) \<Rightarrow> nat \<Rightarrow> nat \<Rightarrow> Tile" where
  "generateTile treeRoll variantRoll col row =
     (let centerX = of_nat MAP_WIDTH / 2; centerY = of_nat MAP_HEIGHT / 2;
          grassRadius = 10; sandRadius = 15; shallowRadius = 22;
          dx = of_nat col - centerX; dy = of_nat row - centerY;
          d2 = dx * dx + dy * dy :: rat;
          blank = \<lparr>type = DeepWater, item = None, stumpChoppedAt = None,
                    placedStructure = None, variant = Some (variantRoll col row)\<rparr>
      in if d2 < grassRadius * grassRadius
         then blank\<lparr>type := Grass,
                     item := (if treeRoll col row < 20 / 100 then Some tree else None)\<rparr>
         else if d2 < sandRadius * sandRadius then blank\<lparr>type := Sand\<rparr>
         else if d2 < shallowRadius * shallowRadius then blank\<lparr>type := ShallowWater\<rparr>
         else blank)"

definition generateMap :: "(nat \<Rightarrow> nat \<Rightarrow> rat) \<Rightarrow> (nat \<Rightarrow> nat \<Rightarrow> rat) \<Rightarrow> Tile list list" where
  "generateMap treeRoll variantRoll =
     map (\<lambda>row. map (\<lambda>col. generateTile treeRoll variantRoll col row) [0..<MAP_WIDTH])
         [0..<MAP_HEIGHT]"

text \<open>
  \<^verbatim>\<open>loadOrInitPlayer\<close> and \<^verbatim>\<open>loadOrInitGameState\<close> without a saved record, and
  the state of a new game after the first tide sweep (the effect at lines 325 to 329).
\<close>

definition loadOrInitPlayer :: Player where
  "loadOrInitPlayer = \<lparr>x = 25, y = 25, targetX = 25, targetY = 25, isMoving = False,
     facing = down, energy = 100, hunger = 100, isResting = False\<rparr>"

definition loadOrInitGameState :: GameState where
  "loadOrInitGameState = \<lparr>day = 1, timeOfDay = 8 * 60, totalMinutes = 8 * 60,
     inventory = Map.empty\<rparr>"

definition newGame ::
  "(nat \<Rightarrow> nat \<Rightarrow> rat) \<Rightarrow> (nat \<Rightarrow> nat \<Rightarrow> rat) \<Rightarrow> (nat \<Rightarrow> nat \<Rightarrow> rat) \<Rightarrow> Sim" where
  "newGame treeRoll variantRoll tideRoll =
     \<lparr>mapRef = triggerTide tideRoll loadOrInitPlayer (generateMap treeRoll variantRoll),
      playerRef = loadOrInitPlayer, gameStateRef = loadOrInitGameState,
      timeAccumulatorRef = 0, regenTimerRef = 0, activeItem = None\<rparr>"

text \<open>\<^verbatim>\<open>handleCraft\<close> on the inventory of the game state.\<close>

definition craft :: "Recipe \<Rightarrow> Sim \<Rightarrow> Sim" where
  "craft recipe s =
     s\<lparr>gameStateRef := (gameStateRef s)\<lparr>inventory := handleCraft recipe (inventory (gameStateRef s))\<rparr>\<rparr>"

text \<open>
  The states of a run: a new game, followed by ticks, interactions, placements, uses of
  an item, crafting one of \<open>RECIPES\<close>, and deselecting the active item. A saved game
  that is loaded again is one of these states.
\<close>

inductive reachable :: "Sim \<Rightarrow> bool" where
  start: "reachable (newGame treeRoll variantRoll tideRoll)"
| tick: "reachable s \<Longrightarrow> update showCrafting deltaTime keys roll s = Inr s' \<Longrightarrow> reachable s'"
| tick_thrown:
    "reachable s \<Longrightarrow> update showCrafting deltaTime keys roll s = Inl (e, s') \<Longrightarrow> reachable s'"
| interact: "reachable s \<Longrightarrow> handleInteraction s = Inr s' \<Longrightarrow> reachable s'"
| interact_thrown: "reachable s \<Longrightarrow> handleInteraction s = Inl (e, s') \<Longrightarrow> reachable s'"
| place: "reachable s \<Longrightarrow> handlePlaceItem s = Inr s' \<Longrightarrow> reachable s'"
| place_thrown: "reachable s \<Longrightarrow> handlePlaceItem s = Inl (e, s') \<Longrightarrow> reachable s'"
| useItem: "reachable s \<Longrightarrow> reachable (handleUseItem it s)"
| crafted: "reachable s \<Longrightarrow> recipe \<in> set RECIPES \<Longrightarrow> reachable (craft recipe s)"
| deselect: "reachable s \<Longrightarrow> reachable (s\<lparr>activeItem := None\<rparr>)"

text \<open>
  Every chop timestamp held by the grid is a positive minute, the grid has its shape,
  and the clock has started.
\<close>

definition stampOk :: "Tile \<Rightarrow> bool" where
  "stampOk t = (case stumpChoppedAt t of None \<Rightarrow> True | Some T \<Rightarrow> 0 < T)"

definition stampsOk :: "Tile list list \<Rightarrow> bool" where
  "stampsOk m = (wf_map m \<and> (\<forall>r \<in> set m. \<forall>t \<in> set r. stampOk t))"

definition stampInv :: "Sim \<Rightarrow> bool" where
  "stampInv s = (stampsOk (mapRef s) \<and> 0 < totalMinutes (gameStateRef s))"

subsection \<open>Example states\<close>

definition sandTile :: Tile where
  "sandTile = \<lparr>type = Sand, item = None, stumpChoppedAt = None, placedStructure = None,
                variant = None\<rparr>"

definition sandGrid :: "Tile list list" where
  "sandGrid = replicate 50 (replicate 50 sandTile)"

definition restP :: Player where
  "restP = \<lparr>x = 25, y = 25, targetX = 25, targetY = 25, isMoving = False, facing = down,
             energy = 50, hunger = 50, isResting = True\<rparr>"

definition fullP :: Player where
  "fullP = \<lparr>x = 25, y = 25, targetX = 25, targetY = 25, isMoving = False, facing = down,
             energy = 100, hunger = 50, isResting = True\<rparr>"

definition tiredP :: Player where
  "tiredP = \<lparr>x = 25, y = 25, targetX = 25, targetY = 25, isMoving = False, facing = down,
              energy = 0, hunger = 100, isResting = False\<rparr>"

definition freshP :: Player where
  "freshP = \<lparr>x = 25, y = 25, targetX = 25, targetY = 25, isMoving = False, facing = down,
              energy = 100, hunger = 80, isResting = False\<rparr>"

definition simTired :: Sim where
  "simTired = \<lparr>mapRef = sandGrid, playerRef = tiredP,
     gameStateRef = \<lparr>day = 1, timeOfDay = 480, totalMinutes = 480, inventory = Map.empty\<rparr>,
     timeAccumulatorRef = 0, regenTimerRef = 0, activeItem = None\<rparr>"

definition sim19 :: Sim where
  "sim19 = \<lparr>mapRef = sandGrid, playerRef = freshP,
     gameStateRef = \<lparr>day = 1, timeOfDay = 19, totalMinutes = 1459, inventory = Map.empty\<rparr>,
     timeAccumulatorRef = 0, regenTimerRef = 0, activeItem = None\<rparr>"

definition sim1430 :: Sim where
  "sim1430 = \<lparr>mapRef = sandGrid, playerRef = freshP,
     gameStateRef = \<lparr>day = 1, timeOfDay = 1430, totalMinutes = 2870, inventory = Map.empty\<rparr>,
     timeAccumulatorRef = 0, regenTimerRef = 0, activeItem = None\<rparr>"

definition treeTile :: Tile where
  "treeTile = \<lparr>type = Grass, item = Some tree, stumpChoppedAt = None,
                placedStructure = None, variant = None\<rparr>"

definition simChop :: Sim where
  "simChop = \<lparr>mapRef = replicate 50 (replicate 50 treeTile), playerRef = freshP,
     gameStateRef = \<lparr>day = 1, timeOfDay = 480, totalMinutes = 480,
                      inventory = Map.empty(axe \<mapsto> 1)\<rparr>,
     timeAccumulatorRef = 0, regenTimerRef = 0, activeItem = Some axe\<rparr>"

definition simChopped :: Sim where
  "simChopped = \<lparr>mapRef = setTile (replicate 50 (replicate 50 treeTile)) 26 25
                    (treeTile\<lparr>item := Some tree_stump, stumpChoppedAt := Some 480\<rparr>),
     playerRef = freshP\<lparr>energy := 90\<rparr>,
     gameStateRef = \<lparr>day = 1, timeOfDay = 480, totalMinutes = 480,
                      inventory = Map.empty(axe \<mapsto> 1, wood \<mapsto> 3, coconut \<mapsto> 1)\<rparr>,
     timeAccumulatorRef = 0, regenTimerRef = 0, activeItem = Some axe\<rparr>"

definition wallTile :: Tile where
  "wallTile = \<lparr>type = Grass, item = None, stumpChoppedAt = None,
                placedStructure = Some wall_wood, variant = None\<rparr>"

definition cornerP :: Player where
  "cornerP = \<lparr>x = 0, y = 0, targetX = 0, targetY = 0, isMoving = False, facing = down,
               energy = 100, hunger = 80, isResting = False\<rparr>"

definition simWalled :: Sim where
  "simWalled = \<lparr>mapRef = replicate 50 (replicate 50 wallTile), playerRef = freshP,
     gameStateRef = \<lparr>day = 1, timeOfDay = 480, totalMinutes = 480, inventory = Map.empty\<rparr>,
     timeAccumulatorRef = 0, regenTimerRef = 0, activeItem = None\<rparr>"

definition simCorner :: Sim where
  "simCorner = \<lparr>mapRef = sandGrid, playerRef = cornerP,
     gameStateRef = \<lparr>day = 1, timeOfDay = 480, totalMinutes = 480, inventory = Map.empty\<rparr>,
     timeAccumulatorRef = 0, regenTimerRef = 0, activeItem = None\<rparr>"

definition noSpawn :: "nat \<Rightarrow> nat \<Rightarrow> rat" where
  "noSpawn col row = 1 / 2"

definition keysNone :: Keys where
  "keysNone k = False"

definition keysUp :: Keys where
  "keysUp k = (k = ''w'')"

subsection \<open>The range of energy and hunger\<close>

definition inRange :: "Player \<Rightarrow> bool" where
  "inRange p = (0 \<le> energy p \<and> energy p \<le> 100 \<and> 0 \<le> hunger p \<and> hunger p \<le> 100)"

section \<open>Properties\<close>

subsection \<open>Inventory lemmas\<close>

lemma count_upd: "count (bag(k \<mapsto> n)) j = (if j = k then n else count bag j)"
  by (simp add: count_def)

lemma canCraft_iff: "canCraft bag ings = (\<forall>(k, n) \<in> set ings. n \<le> count bag k)"
  by (induction ings) (auto split: if_splits)

lemma deduct_notin: "k \<notin> fst ` set ings \<Longrightarrow> deduct bag ings k = bag k"
  by (induction ings arbitrary: bag) (auto)

lemma deduct_in:
  "distinct (map fst ings) \<Longrightarrow> (k, n) \<in> set ings \<Longrightarrow> deduct bag ings k = Some (count bag k - n)"
proof (induction ings arbitrary: bag)
  case Nil
  then show ?case by simp
next
  case (Cons a ings)
  obtain k' n' where a: "a = (k', n')" by (cases a)
  show ?case
  proof (cases "(k, n) = a")
    case True
    with Cons.prems a have "k \<notin> fst ` set ings" by auto
    with True a show ?thesis by (simp add: deduct_notin)
  next
    case False
    with Cons.prems a have in': "(k, n) \<in> set ings" and ne: "k \<noteq> k'"
      by (auto simp: rev_image_eqI)
    from Cons.IH[OF _ in'] Cons.prems
    have "deduct (bag(k' \<mapsto> count bag k' - n')) ings k
            = Some (count (bag(k' \<mapsto> count bag k' - n')) k - n)"
      by simp
    with ne a show ?thesis by (simp add: count_upd)
  qed
qed

lemma need_in: "distinct (map fst ings) \<Longrightarrow> (k, n) \<in> set ings \<Longrightarrow> need ings k = n"
  by (simp add: need_def)

lemma need_notin: "k \<notin> fst ` set ings \<Longrightarrow> need ings k = 0"
proof -
  assume "k \<notin> fst ` set ings"
  then have "map_of ings k = None" by (simp add: map_of_eq_None_iff)
  then show ?thesis by (simp add: need_def)
qed

lemma count_deduct:
  "distinct (map fst ings) \<Longrightarrow> count (deduct bag ings) k = count bag k - need ings k"
proof (cases "k \<in> fst ` set ings")
  case True
  assume d: "distinct (map fst ings)"
  from True obtain n where "(k, n) \<in> set ings" by auto
  with d show ?thesis by (simp add: deduct_in need_in count_def)
next
  case False
  then show ?thesis by (simp add: deduct_notin need_notin count_def)
qed

subsection \<open>The double loop over the grid\<close>

lemma setTile_length [simp]: "length (setTile m row col t) = length m"
  by (simp add: setTile_def)

lemma setTile_nth_row:
  "r < length m \<Longrightarrow> setTile m row col t ! r = (if r = row then (m ! row)[col := t] else m ! r)"
  by (simp add: setTile_def)

lemma inner_loop:
  assumes "row < length m" "n \<le> length (m ! row)"
  shows "fold (\<lambda>col m2. setTile m2 row col (f col row (m2 ! row ! col))) [0..<n] m
         = m[row := map (\<lambda>c. if c < n then f c row (m ! row ! c) else m ! row ! c)
                        [0..<length (m ! row)]]"
  using assms
proof (induction n)
  case 0
  then show ?case by (simp add: map_nth)
next
  case (Suc n)
  let ?g = "\<lambda>col m2. setTile m2 row col (f col row (m2 ! row ! col))"
  let ?L = "length (m ! row)"
  have IH: "fold ?g [0..<n] m
        = m[row := map (\<lambda>c. if c < n then f c row (m ! row ! c) else m ! row ! c) [0..<?L]]"
    using Suc by simp
  have n: "n < ?L" using Suc.prems by simp
  let ?X = "m[row := map (\<lambda>c. if c < n then f c row (m ! row ! c) else m ! row ! c) [0..<?L]]"
  have Xrow: "?X ! row = map (\<lambda>c. if c < n then f c row (m ! row ! c) else m ! row ! c) [0..<?L]"
    using Suc.prems(1) by simp
  have Xn: "?X ! row ! n = m ! row ! n" using n by (simp add: Xrow)
  have "fold ?g [0..<Suc n] m = ?g n ?X" by (simp add: IH)
  also have "\<dots> = m[row := (?X ! row)[n := f n row (m ! row ! n)]]"
    by (simp add: setTile_def Xn)
  also have "(?X ! row)[n := f n row (m ! row ! n)]
      = map (\<lambda>c. if c < Suc n then f c row (m ! row ! c) else m ! row ! c) [0..<?L]"
    unfolding Xrow
    by (rule nth_equalityI) (use n in \<open>auto simp: nth_list_update less_Suc_eq\<close>)
  finally show ?case .
qed

lemma outer_loop:
  assumes "k \<le> length m" "\<forall>r \<in> set m. length r = W"
  shows "fold (\<lambda>row m1. fold (\<lambda>col m2. setTile m2 row col (f col row (m2 ! row ! col))) [0..<W] m1)
              [0..<k] m
         = map (\<lambda>r. if r < k then map (\<lambda>c. f c r (m ! r ! c)) [0..<W] else m ! r) [0..<length m]"
  using assms
proof (induction k)
  case 0
  then show ?case by (simp add: map_nth)
next
  case (Suc k)
  let ?inner = "\<lambda>row m1. fold (\<lambda>col m2. setTile m2 row col (f col row (m2 ! row ! col))) [0..<W] m1"
  let ?M = "map (\<lambda>r. if r < k then map (\<lambda>c. f c r (m ! r ! c)) [0..<W] else m ! r) [0..<length m]"
  have IH: "fold ?inner [0..<k] m = ?M" using Suc by simp
  have k: "k < length m" using Suc.prems by simp
  then have lenk: "length (m ! k) = W" using Suc.prems(2) by simp
  have Mk: "?M ! k = m ! k" using k by simp
  have "?inner k ?M = ?M[k := map (\<lambda>c. if c < W then f c k (?M ! k ! c) else ?M ! k ! c) [0..<length (?M ! k)]]"
    by (rule inner_loop) (use k lenk in simp_all)
  also have "\<dots> = map (\<lambda>r. if r < Suc k then map (\<lambda>c. f c r (m ! r ! c)) [0..<W] else m ! r) [0..<length m]"
    apply (rule nth_equalityI)
    using k lenk apply (auto simp: nth_list_update less_Suc_eq)
    done
  finally show ?case by (simp add: IH)
qed

lemma forEachTile_eq:
  "wf_map m \<Longrightarrow> forEachTile f m
     = map (\<lambda>r. map (\<lambda>c. f c r (m ! r ! c)) [0..<MAP_WIDTH]) [0..<MAP_HEIGHT]"
  unfolding forEachTile_def wf_map_def
  by (subst outer_loop[where W = MAP_WIDTH]) auto

lemma forEachTile_nth:
  "wf_map m \<Longrightarrow> row < MAP_HEIGHT \<Longrightarrow> col < MAP_WIDTH \<Longrightarrow>
     forEachTile f m ! row ! col = f col row (m ! row ! col)"
  by (simp add: forEachTile_eq)

lemma forEachTile_wf: "wf_map m \<Longrightarrow> wf_map (forEachTile f m)"
  by (auto simp: forEachTile_eq wf_map_def)

lemma wf_replicate: "wf_map (replicate 50 (replicate 50 t))"
  by (simp add: wf_map_def MAP_HEIGHT_def MAP_WIDTH_def)

lemma sandGrid_wf: "wf_map sandGrid"
  by (simp add: sandGrid_def wf_replicate)

lemma sandGrid_nth: "row < 50 \<Longrightarrow> col < 50 \<Longrightarrow> sandGrid ! row ! col = sandTile"
  by (simp add: sandGrid_def)

lemma js_round_of_int: "js_round (of_int k) = k"
  unfolding js_round_def by linarith

lemma freshP_tile: "js_round (x freshP) = 25" "js_round (y freshP) = 25"
  using js_round_of_int [of 25] by (simp_all add: freshP_def)

lemma tileAt_of_int:
  assumes "wf_map m" "0 \<le> r" "r < int MAP_HEIGHT" "0 \<le> c" "c < int MAP_WIDTH"
  shows "tileAt m (of_int r) (of_int c) = Some (m ! nat r ! nat c)"
proof -
  from assms have "nat r < length m" by (simp add: wf_map_def)
  moreover from this assms have "nat c < length (m ! nat r)" by (simp add: wf_map_def)
  ultimately show ?thesis using assms by (simp add: tileAt_def)
qed

lemma current_tile_found:
  assumes "wf_map m"
  shows "\<exists>t. tileAt m (of_int (max 0 (min cy (int MAP_HEIGHT - 1))))
                       (of_int (max 0 (min cx (int MAP_WIDTH - 1)))) = Some t"
  by (subst tileAt_of_int[OF assms]) (auto simp: MAP_HEIGHT_def MAP_WIDTH_def)

subsection \<open>Chop timestamps are positive in every reachable state\<close>

lemma stampsOk_nth:
  "stampsOk m \<Longrightarrow> row < MAP_HEIGHT \<Longrightarrow> col < MAP_WIDTH \<Longrightarrow> stampOk (m ! row ! col)"
proof -
  assume ok: "stampsOk m" and "row < MAP_HEIGHT" "col < MAP_WIDTH"
  then have r: "m ! row \<in> set m" by (simp add: stampsOk_def wf_map_def)
  with ok \<open>col < MAP_WIDTH\<close> have "m ! row ! col \<in> set (m ! row)"
    by (simp add: stampsOk_def wf_map_def)
  with ok r show ?thesis by (simp add: stampsOk_def)
qed

lemma stampsOk_forEachTile:
  assumes ok: "stampsOk m" and f: "\<And>col row t. stampOk t \<Longrightarrow> stampOk (f col row t)"
  shows "stampsOk (forEachTile f m)"
proof -
  from ok have wf: "wf_map m" by (simp add: stampsOk_def)
  have "stampOk t" if "r \<in> set (forEachTile f m)" "t \<in> set r" for r t
  proof -
    from that(1) obtain row where row: "row < MAP_HEIGHT"
      and r: "r = map (\<lambda>c. f c row (m ! row ! c)) [0..<MAP_WIDTH]"
      by (auto simp: forEachTile_eq[OF wf])
    from that(2) r obtain col where "col < MAP_WIDTH" "t = f col row (m ! row ! col)" by auto
    with row ok show ?thesis by (simp add: f stampsOk_nth)
  qed
  with forEachTile_wf[OF wf] show ?thesis by (simp add: stampsOk_def)
qed

lemma stampsOk_checkRegrowth: "stampsOk m \<Longrightarrow> stampsOk (checkRegrowth now m)"
  unfolding checkRegrowth_def
  by (rule stampsOk_forEachTile) (auto simp: regrowTile_def stampOk_def)

lemma stampsOk_triggerTide: "stampsOk m \<Longrightarrow> stampsOk (triggerTide roll p m)"
  unfolding triggerTide_def
  by (rule stampsOk_forEachTile) (auto simp: tideTile_def stampOk_def Let_def)

lemma stampsOk_setTile:
  assumes "stampsOk m" "stampOk t"
  shows "stampsOk (setTile m row col t)"
proof (cases "row < length m")
  case False
  with assms show ?thesis by (simp add: setTile_def list_update_beyond)
next
  case True
  then have in_m: "m ! row \<in> set m" by simp
  have sub: "set (m[row := (m ! row)[col := t]]) \<subseteq> insert ((m ! row)[col := t]) (set m)"
    by (rule set_update_subset_insert)
  have sub2: "set ((m ! row)[col := t]) \<subseteq> insert t (set (m ! row))"
    by (rule set_update_subset_insert)
  from assms in_m have "\<forall>u \<in> set ((m ! row)[col := t]). stampOk u"
    using sub2 by (auto simp: stampsOk_def)
  moreover from assms in_m have "length ((m ! row)[col := t]) = MAP_WIDTH"
    by (simp add: stampsOk_def wf_map_def)
  ultimately show ?thesis
    using assms sub by (auto simp: stampsOk_def wf_map_def setTile_def)
qed

lemma stampsOk_generateMap: "stampsOk (generateMap treeRoll variantRoll)"
  by (auto simp: stampsOk_def wf_map_def generateMap_def generateTile_def Let_def stampOk_def)

lemma stampInv_newGame: "stampInv (newGame treeRoll variantRoll tideRoll)"
  by (simp add: stampInv_def newGame_def stampsOk_triggerTide stampsOk_generateMap
        loadOrInitGameState_def)

lemma advanceClock_totalMinutes:
  "0 < totalMinutes g \<Longrightarrow> 0 \<le> n \<Longrightarrow> 0 < totalMinutes (advanceClock n g)"
  by (simp add: advanceClock_def Let_def)

lemma stampInv_timePhase:
  assumes "stampInv s"
  shows "stampInv (timePhase deltaTime roll s)"
proof -
  from assms have m: "stampsOk (mapRef s)" and t: "0 < totalMinutes (gameStateRef s)"
    by (simp_all add: stampInv_def)
  have adv: "0 < totalMinutes (advanceClock \<lfloor>a / 1000\<rfloor> (gameStateRef s))" if "1000 \<le> a" for a :: rat
  proof -
    from that have "0 \<le> \<lfloor>a / 1000\<rfloor>" by simp
    with t show ?thesis by (rule advanceClock_totalMinutes)
  qed
  show ?thesis
    using m t adv
    by (simp add: timePhase_def Let_def REAL_SEC_PER_GAME_MIN_def stampInv_def
          stampsOk_checkRegrowth stampsOk_triggerTide)
qed

lemma movePhase_frame:
  "case movePhase keys s of
     Inl (e, s') \<Rightarrow> mapRef s' = mapRef s \<and> gameStateRef s' = gameStateRef s
   | Inr s' \<Rightarrow> mapRef s' = mapRef s \<and> gameStateRef s' = gameStateRef s"
  by (auto simp: movePhase_def Let_def split: option.split prod.split)

lemma stampInv_update:
  assumes "stampInv s"
  shows "case update showCrafting deltaTime keys roll s of
           Inl (e, s') \<Rightarrow> stampInv s' | Inr s' \<Rightarrow> stampInv s'"
proof -
  let ?s1 = "timePhase deltaTime roll (regenPhase deltaTime (restPhase keys s))"
  from assms have "stampInv (regenPhase deltaTime (restPhase keys s))"
    by (simp add: stampInv_def regenPhase_def restPhase_def Let_def)
  then have 1: "stampInv ?s1" by (rule stampInv_timePhase)
  from movePhase_frame [where keys = keys and s = ?s1] 1 assms show ?thesis
    by (auto simp: update_def stampInv_def split: sum.splits)
qed

lemma stampOk_upd [simp]:
  "stampOk (t\<lparr>item := i\<rparr>) = stampOk t"
  "stampOk (t\<lparr>placedStructure := p\<rparr>) = stampOk t"
  "stampOk (t\<lparr>stumpChoppedAt := Some T\<rparr>) = (0 < T)"
  by (simp_all add: stampOk_def)

lemma tileAt_stampOk: "tileAt m r c = Some t \<Longrightarrow> stampsOk m \<Longrightarrow> stampOk t"
proof -
  assume a: "tileAt m r c = Some t" and ok: "stampsOk m"
  from a have i: "nat \<lfloor>r\<rfloor> < length m" "nat \<lfloor>c\<rfloor> < length (m ! nat \<lfloor>r\<rfloor>)"
    and t: "t = m ! nat \<lfloor>r\<rfloor> ! nat \<lfloor>c\<rfloor>"
    by (auto simp: tileAt_def split: if_splits)
  from i have "m ! nat \<lfloor>r\<rfloor> \<in> set m" "t \<in> set (m ! nat \<lfloor>r\<rfloor>)" by (simp_all add: t)
  with ok show ?thesis by (simp add: stampsOk_def)
qed

lemma stampInv_handleInteraction:
  assumes "stampInv s"
  shows "case handleInteraction s of Inl (e, s') \<Rightarrow> stampInv s' | Inr s' \<Rightarrow> stampInv s'"
proof -
  from assms have m: "stampsOk (mapRef s)" and t: "0 < totalMinutes (gameStateRef s)"
    by (simp_all add: stampInv_def)
  obtain tx ty where f: "facedTile (playerRef s) = (tx, ty)" by (cases "facedTile (playerRef s)")
  show ?thesis
  proof (cases "tileAt (mapRef s) (of_int ty) (of_int tx)")
    case None
    with m t f show ?thesis by (simp add: handleInteraction_def Let_def stampInv_def)
  next
    case (Some tile)
    with m have "stampOk tile" by (simp add: tileAt_stampOk)
    with Some m t f show ?thesis
      by (simp add: handleInteraction_def Let_def stampInv_def stampsOk_setTile
            split: option.split)
  qed
qed

lemma stampInv_handlePlaceItem:
  assumes "stampInv s"
  shows "case handlePlaceItem s of Inl (e, s') \<Rightarrow> stampInv s' | Inr s' \<Rightarrow> stampInv s'"
proof -
  from assms have m: "stampsOk (mapRef s)" and t: "0 < totalMinutes (gameStateRef s)"
    by (simp_all add: stampInv_def)
  obtain tx ty where f: "facedTile (playerRef s) = (tx, ty)" by (cases "facedTile (playerRef s)")
  show ?thesis
  proof (cases "tileAt (mapRef s) (of_int ty) (of_int tx)")
    case None
    with m t f show ?thesis
      by (simp add: handlePlaceItem_def Let_def stampInv_def split: option.split)
  next
    case (Some tile)
    with m have "stampOk tile" by (simp add: tileAt_stampOk)
    with Some m t f show ?thesis
      by (simp add: handlePlaceItem_def Let_def stampInv_def stampsOk_setTile
            split: option.split)
  qed
qed

lemma stampInv_handleUseItem: "stampInv s \<Longrightarrow> stampInv (handleUseItem it s)"
  by (simp add: handleUseItem_def Let_def stampInv_def)

lemma stampInv_craft: "stampInv s \<Longrightarrow> stampInv (craft recipe s)"
  by (simp add: craft_def stampInv_def)

lemma reachable_stampInv: "reachable s \<Longrightarrow> stampInv s"
proof (induction rule: reachable.induct)
  case (start treeRoll variantRoll tideRoll)
  show ?case by (rule stampInv_newGame)
next
  case (tick s showCrafting deltaTime keys roll s')
  with stampInv_update [of s showCrafting deltaTime keys roll] show ?case by simp
next
  case (tick_thrown s showCrafting deltaTime keys roll e s')
  with stampInv_update [of s showCrafting deltaTime keys roll] show ?case by simp
next
  case (interact s s')
  with stampInv_handleInteraction [of s] show ?case by simp
next
  case (interact_thrown s e s')
  with stampInv_handleInteraction [of s] show ?case by simp
next
  case (place s s')
  with stampInv_handlePlaceItem [of s] show ?case by simp
next
  case (place_thrown s e s')
  with stampInv_handlePlaceItem [of s] show ?case by simp
next
  case (useItem s it)
  then show ?case by (simp add: stampInv_handleUseItem)
next
  case (crafted s recipe)
  then show ?case by (simp add: stampInv_craft)
next
  case (deselect s)
  then show ?case by (simp add: stampInv_def)
qed

lemma simChop_interact: "handleInteraction simChop = Inr simChopped"
proof -
  have f: "facedTile (playerRef simChop) = (25, 26)"
    using freshP_tile by (simp add: facedTile_def simChop_def Let_def) (simp add: freshP_def)
  have w: "wf_map (mapRef simChop)" by (simp add: simChop_def wf_replicate)
  have "tileAt (mapRef simChop) (of_int 26) (of_int 25) = Some (mapRef simChop ! nat 26 ! nat 25)"
    by (rule tileAt_of_int[OF w]) (simp_all add: MAP_HEIGHT_def MAP_WIDTH_def)
  then have c: "tileAt (mapRef simChop) 26 25 = Some treeTile" by (simp add: simChop_def)
  have b: "inBounds 25 26" by (simp add: inBounds_def MAP_HEIGHT_def MAP_WIDTH_def)
  have e: "\<not> (energy (playerRef simChop) \<le> 0 \<or> isResting (playerRef simChop))"
    by (simp add: simChop_def freshP_def)
  from f c b e show ?thesis
    by (simp add: handleInteraction_def Let_def treeTile_def count_def)
       (simp add: simChop_def simChopped_def treeTile_def freshP_def fun_eq_iff)
qed

subsection \<open>Resting\<close>

text \<open>
  C1 (as stated, refuted). The claim says hunger is not drained while energy is below the
  cap and strictly decreases once energy has reached 100. In the regeneration step of a
  resting player it is the other way round: at energy 50 the step lowers hunger, and at
  energy 100 the step leaves hunger as it is.
\<close>

theorem rest_drain_counterexample:
  "isResting restP \<and> hunger restP > 0 \<and> energy restP < 100 \<and> energy (regen restP) < 100
     \<and> hunger (regen restP) < hunger restP
   \<and> isResting fullP \<and> hunger fullP > 0 \<and> energy fullP = 100 \<and> energy (regen fullP) = 100
     \<and> hunger (regen fullP) = hunger fullP"
  by (simp add: regen_def restP_def fullP_def Let_def)

text \<open>
  C1 (amended). For a resting player with energy at most 100, the regeneration step sets
  energy to \<open>min 100 (energy + 1)\<close>, so energy never decreases; hunger is lowered by 0.05
  (not below 0) exactly when the new energy is still below 100, which is a strict decrease
  when hunger is positive, and hunger is left unchanged by the step once the new energy
  is 100.
\<close>

theorem rest_regen_step:
  assumes "isResting p" "energy p \<le> 100"
  shows "energy (regen p) = min 100 (energy p + 1) \<and> energy p \<le> energy (regen p)
       \<and> hunger (regen p) = (if energy (regen p) < 100 then max 0 (hunger p - 5 / 100) else hunger p)
       \<and> (energy (regen p) < 100 \<and> 0 < hunger p \<longrightarrow> hunger (regen p) < hunger p)
       \<and> (energy (regen p) = 100 \<longrightarrow> hunger (regen p) = hunger p)"
  using assms by (auto simp: regen_def Let_def min_def max_def)

theorem rest_regen_step_witness:
  "isResting restP \<and> energy restP \<le> 100 \<and> energy (regen restP) = 51
     \<and> hunger (regen restP) < hunger restP
   \<and> isResting fullP \<and> energy fullP \<le> 100 \<and> energy (regen fullP) = 100
     \<and> hunger (regen fullP) = hunger fullP"
  using rest_regen_step [of restP] rest_regen_step [of fullP] by (simp add: restP_def fullP_def)

subsection \<open>Crafting\<close>

text \<open>
  C2 (the code at the failing input). Crafting a wooden wall from exactly two wood
  succeeds, but \<^verbatim>\<open>handleCraft\<close> writes the remaining count back without deleting it:
  the inventory keeps the key \<open>wood\<close> with count 0, where eating and placing delete a
  key that reaches 0.
\<close>

theorem craft_wall_keeps_zero:
  "handleCraft craft_wall_wood (Map.empty(wood \<mapsto> 2)) wood = Some 0
   \<and> handleCraft craft_wall_wood (Map.empty(wood \<mapsto> 2)) wall_wood = Some 1"
  by (simp add: handleCraft_def craft_wall_wood_def count_def)

text \<open>
  C6. Crafting is all-or-nothing. If some ingredient's count is below what the recipe
  asks for, \<^verbatim>\<open>handleCraft\<close> returns the inventory unchanged. If every ingredient is
  covered (the ingredients being the entries of an object, their keys are distinct), every
  ingredient's count is lowered by its amount, the result's count is raised by the
  recipe's amount, and every other key is untouched.
\<close>

theorem craft_all_or_nothing:
  "((\<exists>(k, n) \<in> set (ingredients r). count bag k < n) \<longrightarrow> handleCraft r bag = bag) \<and>
   (distinct (map fst (ingredients r)) \<and> (\<forall>(k, n) \<in> set (ingredients r). n \<le> count bag k) \<longrightarrow>
      (\<forall>k. handleCraft r bag k =
         (if k = result r then Some (count bag k - need (ingredients r) k + amount r)
          else if k \<in> fst ` set (ingredients r) then Some (count bag k - need (ingredients r) k)
          else bag k)))"
proof (intro conjI impI allI)
  assume "\<exists>(k, n) \<in> set (ingredients r). count bag k < n"
  then obtain k n where "(k, n) \<in> set (ingredients r)" "count bag k < n" by auto
  then have "\<not> canCraft bag (ingredients r)" unfolding canCraft_iff by fastforce
  then show "handleCraft r bag = bag" by (simp add: handleCraft_def)
next
  fix k
  assume h: "distinct (map fst (ingredients r))
             \<and> (\<forall>(k, n) \<in> set (ingredients r). n \<le> count bag k)"
  then have c: "canCraft bag (ingredients r)" by (simp add: canCraft_iff)
  from h have d: "distinct (map fst (ingredients r))" by simp
  show "handleCraft r bag k =
         (if k = result r then Some (count bag k - need (ingredients r) k + amount r)
          else if k \<in> fst ` set (ingredients r) then Some (count bag k - need (ingredients r) k)
          else bag k)"
  proof (cases "k = result r")
    case True
    with c d show ?thesis by (simp add: handleCraft_def Let_def count_deduct)
  next
    case False
    show ?thesis
    proof (cases "k \<in> fst ` set (ingredients r)")
      case True
      then obtain n where "(k, n) \<in> set (ingredients r)" by auto
      with d c False True show ?thesis by (simp add: handleCraft_def Let_def deduct_in need_in)
    next
      case nin: False
      with c False show ?thesis by (simp add: handleCraft_def Let_def deduct_notin)
    qed
  qed
qed

theorem craft_all_or_nothing_witness:
  "handleCraft craft_wall_wood (Map.empty(wood \<mapsto> 1)) = Map.empty(wood \<mapsto> 1) \<and>
   handleCraft craft_axe (Map.empty(metal \<mapsto> 1, driftwood \<mapsto> 3)) axe = Some 1 \<and>
   handleCraft craft_axe (Map.empty(metal \<mapsto> 1, driftwood \<mapsto> 3)) driftwood = Some 2"
  using craft_all_or_nothing [of craft_wall_wood "Map.empty(wood \<mapsto> 1)"]
        craft_all_or_nothing [of craft_axe "Map.empty(metal \<mapsto> 1, driftwood \<mapsto> 3)"]
  by (simp add: craft_wall_wood_def craft_axe_def count_def need_def)

subsection \<open>Game time\<close>

text \<open>
  C3 (the code at the failing input). At \<open>timeOfDay = 19\<close> a tick of 2000 ms, with no key
  held, adds two game minutes at once: \<open>timeOfDay\<close> becomes 21, having crossed 20, yet
  the tick changes nothing but the clock. Hunger stays 80 and the grid is not swept,
  because the test is \<^verbatim>\<open>timeOfDay % 20 === 0\<close> on the value after the whole advance.
\<close>

theorem skipped_boundary_no_event:
  "timeOfDay (gameStateRef sim19) = 19 \<and> hunger (playerRef sim19) = 80
   \<and> update False 2000 keysNone noSpawn sim19
       = Inr (sim19\<lparr>gameStateRef := (gameStateRef sim19)\<lparr>timeOfDay := 21,
                                                            totalMinutes := 1461\<rparr>\<rparr>)"
proof -
  have r: "restPhase keysNone sim19 = sim19"
    by (simp add: restPhase_def keysNone_def sim19_def freshP_def)
  have g: "regenPhase 2000 sim19 = sim19"
    by (simp add: regenPhase_def regen_def sim19_def freshP_def Let_def)
  have t: "timePhase 2000 noSpawn sim19
             = sim19\<lparr>gameStateRef := (gameStateRef sim19)\<lparr>timeOfDay := 21,
                                                              totalMinutes := 1461\<rparr>\<rparr>"
    by (simp add: timePhase_def advanceClock_def sim19_def freshP_def Let_def
        REAL_SEC_PER_GAME_MIN_def GAME_MINS_PER_DAY_def js_rem_def)
  have c: "tileAt sandGrid (of_int 25) (of_int 25) = Some (sandGrid ! nat 25 ! nat 25)"
    by (rule tileAt_of_int[OF sandGrid_wf]) (simp_all add: MAP_HEIGHT_def MAP_WIDTH_def)
  have m: "movePhase keysNone (sim19\<lparr>gameStateRef := gs\<rparr>) = Inr (sim19\<lparr>gameStateRef := gs\<rparr>)"
    for gs
    using c freshP_tile
    by (simp add: movePhase_def Let_def sim19_def intentDir_def keysNone_def MAP_HEIGHT_def
          MAP_WIDTH_def freshP_def)
  have "timeOfDay (gameStateRef sim19) = 19 \<and> hunger (playerRef sim19) = 80"
    by (simp add: sim19_def freshP_def)
  then show ?thesis by (simp add: update_def r g t m)
qed

subsection \<open>Interaction\<close>

text \<open>
  C10. With energy at most 0, or while resting, \<^verbatim>\<open>handleInteraction\<close> returns at once:
  the whole state (tiles, inventory, energy) is unchanged, whatever the faced tile holds.
\<close>

theorem interact_gate_noop:
  "energy (playerRef s) \<le> 0 \<or> isResting (playerRef s) \<Longrightarrow> handleInteraction s = Inr s"
  by (auto simp: handleInteraction_def Let_def)

theorem interact_gate_noop_witness:
  "(energy (playerRef simTired) \<le> 0 \<or> isResting (playerRef simTired))
   \<and> handleInteraction simTired = Inr simTired"
  using interact_gate_noop [of simTired] by (simp add: simTired_def tiredP_def)

subsection \<open>Day rollover\<close>

text \<open>
  C5. When the accumulated time of a tick is at least one game minute and the advance
  by \<open>n\<close> whole minutes takes \<open>timeOfDay\<close> to 1440 or beyond, the tick subtracts exactly
  1440 from \<open>timeOfDay\<close> (no modulo), adds 1 to \<open>day\<close>, and the grid afterwards is one
  tide sweep applied to the grid as the minute-boundary test left it. From
  \<open>timeOfDay = 1430\<close> an advance of 20 minutes gives \<open>timeOfDay = 10\<close> and the next day.
\<close>

theorem day_rollover:
  assumes acc: "acc = timeAccumulatorRef s
                       + (if isResting (playerRef s) then deltaTime * 20 else deltaTime)"
      and ge: "acc \<ge> 1000"
      and n: "n = \<lfloor>acc / 1000\<rfloor>"
      and roll: "timeOfDay (gameStateRef s) + n \<ge> 1440"
  shows "timeOfDay (gameStateRef (timePhase deltaTime roll s)) = timeOfDay (gameStateRef s) + n - 1440
       \<and> day (gameStateRef (timePhase deltaTime roll s)) = day (gameStateRef s) + 1
       \<and> mapRef (timePhase deltaTime roll s)
           = triggerTide roll (playerRef (timePhase deltaTime roll s))
               (if (timeOfDay (gameStateRef s) + n) mod 20 = 0
                then checkRegrowth (totalMinutes (gameStateRef (timePhase deltaTime roll s))) (mapRef s)
                else mapRef s)"
proof -
  have t: "timeOfDay (advanceClock k g) = timeOfDay g + k" for g k
    by (simp add: advanceClock_def Let_def)
  have d: "day (advanceClock k g) = day g" for g k
    by (simp add: advanceClock_def Let_def)
  from acc ge n roll show ?thesis
    by (simp add: timePhase_def Let_def REAL_SEC_PER_GAME_MIN_def GAME_MINS_PER_DAY_def t d)
qed

theorem day_rollover_witness:
  "timeOfDay (gameStateRef sim1430) = 1430
   \<and> timeOfDay (gameStateRef (timePhase 20000 noSpawn sim1430)) = 10
   \<and> day (gameStateRef (timePhase 20000 noSpawn sim1430)) = day (gameStateRef sim1430) + 1
   \<and> mapRef (timePhase 20000 noSpawn sim1430)
       = triggerTide noSpawn (playerRef (timePhase 20000 noSpawn sim1430)) (mapRef sim1430)"
  using day_rollover [of 20000 sim1430 20000 20 noSpawn]
  by (simp add: sim1430_def freshP_def)

subsection \<open>Tide and regrowth sweeps\<close>

text \<open>
  C7. In a tide sweep over a 50 by 50 grid, a tile that is not Sand, or holds an item or
  a placed structure, or is the player's rounded tile, is left exactly as it was. An
  eligible tile changes in its \<open>item\<close> field only, and the one sample drawn for it
  decides the outcome: driftwood below 0.15, metal strictly between 0.88 and 0.98, crate
  above 0.98, and nothing otherwise; the bands do not overlap.
\<close>

theorem tide_frame:
  assumes "wf_map m" "row < MAP_HEIGHT" "col < MAP_WIDTH"
  shows "(if type (m ! row ! col) = Sand \<and> item (m ! row ! col) = None
             \<and> placedStructure (m ! row ! col) = None
             \<and> \<not> (js_round (x player) = int col \<and> js_round (y player) = int row)
          then triggerTide roll player m ! row ! col
                 = (m ! row ! col)\<lparr>item := item (triggerTide roll player m ! row ! col)\<rparr>
               \<and> (item (triggerTide roll player m ! row ! col) = Some driftwood
                     \<and> roll col row < 15 / 100
                  \<or> item (triggerTide roll player m ! row ! col) = Some metal
                     \<and> 88 / 100 < roll col row \<and> roll col row < 98 / 100
                  \<or> item (triggerTide roll player m ! row ! col) = Some crate
                     \<and> 98 / 100 < roll col row
                  \<or> item (triggerTide roll player m ! row ! col) = None
                     \<and> 15 / 100 \<le> roll col row \<and> roll col row \<le> 88 / 100
                  \<or> item (triggerTide roll player m ! row ! col) = None
                     \<and> roll col row = 98 / 100)
          else triggerTide roll player m ! row ! col = m ! row ! col)"
proof -
  have "triggerTide roll player m ! row ! col = tideTile roll player col row (m ! row ! col)"
    using assms by (simp add: triggerTide_def forEachTile_nth)
  then show ?thesis
    by (auto simp: tideTile_def Let_def)
qed

theorem tide_frame_witness:
  "item (triggerTide (\<lambda>c r. 1 / 10) freshP sandGrid ! 3 ! 4) = Some driftwood
   \<and> triggerTide (\<lambda>c r. 1 / 10) freshP sandGrid ! 25 ! 25 = sandTile"
proof -
  have a: "(3::nat) < MAP_HEIGHT" "(4::nat) < MAP_WIDTH" "(25::nat) < MAP_HEIGHT" "(25::nat) < MAP_WIDTH"
    by (simp_all add: MAP_HEIGHT_def MAP_WIDTH_def)
  have t: "type sandTile = Sand" "item sandTile = None" "placedStructure sandTile = None"
    by (simp_all add: sandTile_def)
  show ?thesis
    using tide_frame [OF sandGrid_wf a(1) a(2), of freshP "\<lambda>c r. 1 / 10"]
          tide_frame [OF sandGrid_wf a(3) a(4), of freshP "\<lambda>c r. 1 / 10"]
    by (simp add: sandGrid_nth freshP_tile t)
qed

text \<open>
  C8. In every state a run can reach, each chop timestamp on the grid is a positive
  minute (\<open>stampInv\<close>, which holds for a new game and is kept by every operation). For
  every tile of such a state holding a stump with chop timestamp \<open>T\<close>, a regrowth
  sweep evaluated at \<open>now\<close> turns it into a tree and clears the timestamp if
  \<open>now \<ge> T + 1440\<close>, and leaves the tile as it was otherwise; so it is still a stump
  at \<open>T + 1439\<close>.
\<close>

theorem regrowth_threshold:
  assumes "stampInv s" "row < MAP_HEIGHT" "col < MAP_WIDTH"
      and "item (mapRef s ! row ! col) = Some tree_stump"
      and "stumpChoppedAt (mapRef s ! row ! col) = Some T"
  shows "checkRegrowth now (mapRef s) ! row ! col
           = (if now \<ge> T + 1440
              then (mapRef s ! row ! col)\<lparr>item := Some tree, stumpChoppedAt := None\<rparr>
              else mapRef s ! row ! col)"
proof -
  from assms(1) have ok: "stampsOk (mapRef s)" by (simp add: stampInv_def)
  then have wf: "wf_map (mapRef s)" by (simp add: stampsOk_def)
  from stampsOk_nth[OF ok assms(2,3)] assms(5) have T: "0 < T" by (simp add: stampOk_def)
  have "checkRegrowth now (mapRef s) ! row ! col = regrowTile now (mapRef s ! row ! col)"
    using wf assms(2,3) by (simp add: checkRegrowth_def forEachTile_nth)
  with assms(4,5) T show ?thesis
    by (auto simp: regrowTile_def truthy_def REGROWTH_TIME_def)
qed

theorem regrowth_threshold_witness:
  "stampInv simChopped
   \<and> stumpChoppedAt (mapRef simChopped ! 26 ! 25) = Some 480
   \<and> item (checkRegrowth 1920 (mapRef simChopped) ! 26 ! 25) = Some tree
   \<and> stumpChoppedAt (checkRegrowth 1920 (mapRef simChopped) ! 26 ! 25) = None
   \<and> item (checkRegrowth 1919 (mapRef simChopped) ! 26 ! 25) = Some tree_stump"
proof -
  have "stampInv simChop"
    by (simp add: stampInv_def stampsOk_def simChop_def wf_replicate stampOk_def treeTile_def)
  with stampInv_handleInteraction [of simChop] have inv: "stampInv simChopped"
    by (simp add: simChop_interact)
  have a: "(26::nat) < MAP_HEIGHT" "(25::nat) < MAP_WIDTH"
    by (simp_all add: MAP_HEIGHT_def MAP_WIDTH_def)
  have t: "mapRef simChopped ! 26 ! 25
             = treeTile\<lparr>item := Some tree_stump, stumpChoppedAt := Some 480\<rparr>"
    by (simp add: simChopped_def setTile_def)
  have i: "item (mapRef simChopped ! 26 ! 25) = Some tree_stump"
    and st: "stumpChoppedAt (mapRef simChopped ! 26 ! 25) = Some 480"
    by (simp_all add: t)
  from inv st regrowth_threshold [OF inv a i st, of 1920] regrowth_threshold [OF inv a i st, of 1919]
  show ?thesis by (simp add: t)
qed

subsection \<open>Movement\<close>

text \<open>
  C9. For an idle, not resting player on a 50 by 50 grid and a held direction key, if
  the candidate tile is out of bounds or solid (deep water, an item or a placed
  structure), the movement step changes \<open>facing\<close> to the chosen direction and nothing
  else: position, target and \<open>isMoving\<close> stay as they were.
\<close>

theorem blocked_move_updates_facing_only:
  assumes wf: "wf_map (mapRef s)"
      and idle: "\<not> isMoving (playerRef s)" "\<not> isResting (playerRef s)"
      and dir: "intentDir keys = Some d"
      and cand: "nextPos d (playerRef s) = (nx, ny)"
      and blocked: "\<not> inBounds nx ny \<or> (\<exists>t. tileAt (mapRef s) ny nx = Some t \<and> isSolid t)"
  shows "movePhase keys s = Inr (s\<lparr>playerRef := (playerRef s)\<lparr>facing := d\<rparr>\<rparr>)"
proof -
  from current_tile_found[OF wf] obtain t0 where
    t0: "tileAt (mapRef s) (of_int (max 0 (min (js_round (y (playerRef s))) (int MAP_HEIGHT - 1))))
           (of_int (max 0 (min (js_round (x (playerRef s))) (int MAP_WIDTH - 1)))) = Some t0"
    by blast
  from blocked show ?thesis
  proof
    assume "\<not> inBounds nx ny"
    with t0 idle dir cand show ?thesis by (simp add: movePhase_def Let_def)
  next
    assume "\<exists>t. tileAt (mapRef s) ny nx = Some t \<and> isSolid t"
    then obtain t where "tileAt (mapRef s) ny nx = Some t" "isSolid t" by blast
    with t0 idle dir cand show ?thesis by (simp add: movePhase_def Let_def)
  qed
qed

theorem blocked_move_updates_facing_only_witness:
  "movePhase keysUp simCorner = Inr (simCorner\<lparr>playerRef := cornerP\<lparr>facing := up\<rparr>\<rparr>)
   \<and> movePhase keysUp simWalled = Inr (simWalled\<lparr>playerRef := freshP\<lparr>facing := up\<rparr>\<rparr>)"
proof -
  have d: "intentDir keysUp = Some up" by (simp add: intentDir_def keysUp_def)
  have c1: "nextPos up (playerRef simCorner) = (0, -1)"
    by (simp add: nextPos_def simCorner_def cornerP_def)
  have c2: "nextPos up (playerRef simWalled) = (25, 24)"
    by (simp add: nextPos_def simWalled_def freshP_def)
  have w1: "wf_map (mapRef simCorner)" by (simp add: simCorner_def sandGrid_def wf_replicate)
  have w2: "wf_map (mapRef simWalled)" by (simp add: simWalled_def wf_replicate)
  have i1: "\<not> isMoving (playerRef simCorner)" "\<not> isResting (playerRef simCorner)"
    by (simp_all add: simCorner_def cornerP_def)
  have i2: "\<not> isMoving (playerRef simWalled)" "\<not> isResting (playerRef simWalled)"
    by (simp_all add: simWalled_def freshP_def)
  have b1: "\<not> inBounds 0 (-1)" by (simp add: inBounds_def)
  have "tileAt (mapRef simWalled) (of_int 24) (of_int 25) = Some (mapRef simWalled ! nat 24 ! nat 25)"
    by (rule tileAt_of_int[OF w2]) (simp_all add: MAP_HEIGHT_def MAP_WIDTH_def)
  then have b2: "tileAt (mapRef simWalled) 24 25 = Some wallTile \<and> isSolid wallTile"
    by (simp add: simWalled_def isSolid_def wallTile_def)
  from blocked_move_updates_facing_only [OF w1 i1 d c1] b1
       blocked_move_updates_facing_only [OF w2 i2 d c2] b2
  show ?thesis by (auto simp: simCorner_def simWalled_def)
qed

subsection \<open>Energy and hunger stay within 0 and 100\<close>

lemma inRange_pose [simp]:
  "inRange (p\<lparr>x := a\<rparr>) = inRange p" "inRange (p\<lparr>y := a\<rparr>) = inRange p"
  "inRange (p\<lparr>targetX := a\<rparr>) = inRange p" "inRange (p\<lparr>targetY := a\<rparr>) = inRange p"
  "inRange (p\<lparr>isMoving := b\<rparr>) = inRange p" "inRange (p\<lparr>facing := d\<rparr>) = inRange p"
  "inRange (p\<lparr>isResting := b\<rparr>) = inRange p"
  by (simp_all add: inRange_def)

lemma inRange_energy:
  "inRange (p\<lparr>energy := e\<rparr>) = (0 \<le> e \<and> e \<le> 100 \<and> 0 \<le> hunger p \<and> hunger p \<le> 100)"
  by (simp add: inRange_def)

lemma inRange_hunger:
  "inRange (p\<lparr>hunger := h\<rparr>) = (0 \<le> energy p \<and> energy p \<le> 100 \<and> 0 \<le> h \<and> h \<le> 100)"
  by (simp add: inRange_def)

lemma movePhase_inRange:
  assumes r: "inRange (playerRef s)"
  shows "case movePhase keys s of Inl (e, s') \<Rightarrow> inRange (playerRef s') | Inr s' \<Rightarrow> inRange (playerRef s')"
proof (cases "tileAt (mapRef s)
        (of_int (max 0 (min (js_round (y (playerRef s))) (int MAP_HEIGHT - 1))))
        (of_int (max 0 (min (js_round (x (playerRef s))) (int MAP_WIDTH - 1))))")
  case None
  then show ?thesis using r by (simp add: movePhase_def Let_def)
next
  case (Some currentTile)
  show ?thesis
  proof (cases "isMoving (playerRef s)")
    case True
    from r have e: "0 \<le> energy (playerRef s)" "energy (playerRef s) \<le> 100"
      and h: "0 \<le> hunger (playerRef s)" "hunger (playerRef s) \<le> 100"
      by (simp_all add: inRange_def)
    from True Some r e h show ?thesis
      by (simp add: movePhase_def Let_def inRange_energy)
  next
    case nm: False
    show ?thesis
    proof (cases "isResting (playerRef s)")
      case True
      with nm Some r show ?thesis by (simp add: movePhase_def Let_def)
    next
      case nr: False
      show ?thesis
      proof (cases "intentDir keys")
        case None
        with nm nr Some r show ?thesis by (simp add: movePhase_def Let_def)
      next
        case (Some d)
        obtain nx ny where np: "nextPos d (playerRef s) = (nx, ny)" by (cases "nextPos d (playerRef s)")
        from nm nr \<open>tileAt _ _ _ = Some currentTile\<close> Some np r show ?thesis
          by (cases "tileAt (mapRef s) ny nx") (simp_all add: movePhase_def Let_def)
      qed
    qed
  qed
qed

lemma regen_inRange: "inRange p \<Longrightarrow> inRange (regen p)"
  by (auto simp: inRange_def regen_def Let_def)

lemma restPhase_inRange: "inRange (playerRef s) \<Longrightarrow> inRange (playerRef (restPhase keys s))"
  by (simp add: restPhase_def)

lemma regenPhase_inRange: "inRange (playerRef s) \<Longrightarrow> inRange (playerRef (regenPhase dt s))"
  by (simp add: regenPhase_def Let_def regen_inRange)

lemma timePhase_player:
  "playerRef (timePhase dt roll s) = playerRef s
   \<or> playerRef (timePhase dt roll s) = (playerRef s)\<lparr>hunger := max 0 (hunger (playerRef s) - 1)\<rparr>"
  by (simp add: timePhase_def Let_def)

lemma timePhase_inRange: "inRange (playerRef s) \<Longrightarrow> inRange (playerRef (timePhase dt roll s))"
  using timePhase_player [of dt roll s] by (auto simp: inRange_def)

lemma update_inRange:
  "inRange (playerRef s) \<Longrightarrow>
     (case update sc dt keys roll s of Inl (e, s') \<Rightarrow> inRange (playerRef s') | Inr s' \<Rightarrow> inRange (playerRef s'))"
  unfolding update_def
  by (simp add: movePhase_inRange timePhase_inRange regenPhase_inRange restPhase_inRange)


lemma handleInteraction_inRange:
  assumes r: "inRange (playerRef s)"
  shows "case handleInteraction s of Inl (e, s') \<Rightarrow> inRange (playerRef s')
         | Inr s' \<Rightarrow> inRange (playerRef s')"
proof -
  from r have e: "0 \<le> energy (playerRef s)" "energy (playerRef s) \<le> 100"
    and h: "0 \<le> hunger (playerRef s)" "hunger (playerRef s) \<le> 100"
    by (simp_all add: inRange_def)
  obtain tx ty where f: "facedTile (playerRef s) = (tx, ty)" by (cases "facedTile (playerRef s)")
  from r e h f show ?thesis
    by (simp add: handleInteraction_def Let_def inRange_energy split: option.split)
qed

lemma handleUseItem_inRange:
  assumes r: "inRange (playerRef s)"
  shows "inRange (playerRef (handleUseItem it s))"
proof -
  from r have e: "0 \<le> energy (playerRef s)" "energy (playerRef s) \<le> 100"
    and h: "0 \<le> hunger (playerRef s)" "hunger (playerRef s) \<le> 100"
    by (simp_all add: inRange_def)
  have g: "0 \<le> (case hungerRestore it of None \<Rightarrow> 10 | Some v \<Rightarrow> v)"
    by (cases it) simp_all
  from r e h g show ?thesis
    by (simp add: handleUseItem_def Let_def inRange_hunger)
qed

text \<open>
  C4. From a state whose energy and hunger lie in the closed interval from 0 to 100,
  every tick (for every frame time, key state and tide samples, with the crafting menu
  open or closed), every interaction and every use of an item leaves energy and hunger
  in that interval, also in the state left behind when the tick or the interaction throws.
\<close>

theorem energy_hunger_in_range:
  assumes "inRange (playerRef s)"
  shows "(case update showCrafting deltaTime keys roll s of
            Inl (e, s') \<Rightarrow> inRange (playerRef s') | Inr s' \<Rightarrow> inRange (playerRef s'))
       \<and> (case handleInteraction s of
            Inl (e, s') \<Rightarrow> inRange (playerRef s') | Inr s' \<Rightarrow> inRange (playerRef s'))
       \<and> inRange (playerRef (handleUseItem it s))"
  using assms update_inRange handleInteraction_inRange handleUseItem_inRange by blast

theorem energy_hunger_in_range_witness:
  "inRange (playerRef sim19)
   \<and> (case update False 2000 keysNone noSpawn sim19 of
         Inl (e, s') \<Rightarrow> inRange (playerRef s') | Inr s' \<Rightarrow> inRange (playerRef s'))
   \<and> (case handleInteraction sim19 of
         Inl (e, s') \<Rightarrow> inRange (playerRef s') | Inr s' \<Rightarrow> inRange (playerRef s'))
   \<and> inRange (playerRef (handleUseItem coconut sim19))"
proof -
  have "inRange (playerRef sim19)" by (simp add: sim19_def freshP_def inRange_def)
  from this energy_hunger_in_range [OF this, of False 2000 keysNone noSpawn coconut]
  show ?thesis by simp
qed

end
